theory Spec2Isabelle
  imports Main "HOL-Library.Word"
begin

section \<open>CAtomic.h: memory orderings\<close>

text \<open>
  The header declares its three ordering enumerations over \<^verbatim>\<open>unsigned int\<close>
  (\<^verbatim>\<open>_CATOMIC_ENUM(unsigned int, ...)\<close>), so an ordering is a 32-bit word and any word
  can reach a function taking one.  The enumerators are initialised from the constants
  \<^verbatim>\<open>memory_order_*\<close> of the C library's \<^verbatim>\<open>stdatomic.h\<close>, which number the six
  orderings 0 to 5 in declaration order.
\<close>

type_synonym memory_order = "32 word"
type_synonym AtomicMemoryOrder = "32 word"
type_synonym AtomicLoadMemoryOrder = "32 word"
type_synonym AtomicStoreMemoryOrder = "32 word"

definition memory_order_relaxed :: memory_order where
  "memory_order_relaxed = 0"

definition memory_order_consume :: memory_order where
  "memory_order_consume = 1"

definition memory_order_acquire :: memory_order where
  "memory_order_acquire = 2"

definition memory_order_release :: memory_order where
  "memory_order_release = 3"

definition memory_order_acq_rel :: memory_order where
  "memory_order_acq_rel = 4"

definition memory_order_seq_cst :: memory_order where
  "memory_order_seq_cst = 5"

definition AtomicMemoryOrderRelaxed :: AtomicMemoryOrder where
  "AtomicMemoryOrderRelaxed = memory_order_relaxed"

definition AtomicMemoryOrderConsume :: AtomicMemoryOrder where
  "AtomicMemoryOrderConsume = memory_order_consume"

definition AtomicMemoryOrderAcquire :: AtomicMemoryOrder where
  "AtomicMemoryOrderAcquire = memory_order_acquire"

definition AtomicMemoryOrderRelease :: AtomicMemoryOrder where
  "AtomicMemoryOrderRelease = memory_order_release"

definition AtomicMemoryOrderAcqrel :: AtomicMemoryOrder where
  "AtomicMemoryOrderAcqrel = memory_order_acq_rel"

definition AtomicMemoryOrderSeqcst :: AtomicMemoryOrder where
  "AtomicMemoryOrderSeqcst = memory_order_seq_cst"

definition AtomicLoadMemoryOrderRelaxed :: AtomicLoadMemoryOrder where
  "AtomicLoadMemoryOrderRelaxed = memory_order_relaxed"

definition AtomicLoadMemoryOrderConsume :: AtomicLoadMemoryOrder where
  "AtomicLoadMemoryOrderConsume = memory_order_consume"

definition AtomicLoadMemoryOrderAcquire :: AtomicLoadMemoryOrder where
  "AtomicLoadMemoryOrderAcquire = memory_order_acquire"

definition AtomicLoadMemoryOrderSeqcst :: AtomicLoadMemoryOrder where
  "AtomicLoadMemoryOrderSeqcst = memory_order_seq_cst"

definition AtomicStoreMemoryOrderRelaxed :: AtomicStoreMemoryOrder where
  "AtomicStoreMemoryOrderRelaxed = memory_order_relaxed"

definition AtomicStoreMemoryOrderConsume :: AtomicStoreMemoryOrder where
  "AtomicStoreMemoryOrderConsume = memory_order_consume"

definition AtomicStoreMemoryOrderRelease :: AtomicStoreMemoryOrder where
  "AtomicStoreMemoryOrderRelease = memory_order_release"

definition AtomicStoreMemoryOrderSeqcst :: AtomicStoreMemoryOrder where
  "AtomicStoreMemoryOrderSeqcst = memory_order_seq_cst"

text \<open>
  \<^verbatim>\<open>AtomicMemoryOrderStrongestLoadOrder\<close>: the \<^verbatim>\<open>switch\<close> over \<^verbatim>\<open>self\<close>, one branch per
  \<^verbatim>\<open>case\<close> label in the order of the source, the last \<^verbatim>\<open>else\<close> being its
  \<^verbatim>\<open>default\<close>.
\<close>

definition AtomicMemoryOrderStrongestLoadOrder :: "AtomicMemoryOrder \<Rightarrow> AtomicLoadMemoryOrder" where
  "AtomicMemoryOrderStrongestLoadOrder self =
     (if self = AtomicMemoryOrderRelaxed then AtomicLoadMemoryOrderRelaxed
      else if self = AtomicMemoryOrderConsume then AtomicLoadMemoryOrderConsume
      else if self = AtomicMemoryOrderAcquire then AtomicLoadMemoryOrderAcquire
      else if self = AtomicMemoryOrderRelease then AtomicLoadMemoryOrderRelaxed
      else if self = AtomicMemoryOrderAcqrel then AtomicLoadMemoryOrderAcquire
      else if self = AtomicMemoryOrderSeqcst then AtomicLoadMemoryOrderSeqcst
      else AtomicLoadMemoryOrderSeqcst)"

section \<open>CAtomic.h: the atomic operation family\<close>

text \<open>
  \<^verbatim>\<open>assert\<close> of \<^verbatim>\<open>assert.h\<close>: with \<^verbatim>\<open>NDEBUG\<close> defined the macro expands to nothing;
  otherwise a false argument aborts the program.  The abort is the only error of the model.
\<close>

datatype error = AssertionFailed

definition c_assert :: "bool \<Rightarrow> bool \<Rightarrow> error + unit" where
  "c_assert NDEBUG e = (if NDEBUG then Inr () else if e then Inr () else Inl AssertionFailed)"

text \<open>
  Storage is owned by the caller and reached through pointers: \<^verbatim>\<open>ptr\<close> to the cell and, for
  compare-exchange, \<^verbatim>\<open>expected\<close> to a plain object of the same type.  The model is a store
  from addresses to values of the cell's type, accessed by one thread; two pointers may be
  equal.
\<close>

type_synonym addr = nat
type_synonym 'a memory = "addr \<Rightarrow> 'a"

text \<open>
  Modelled from the spec: the generic functions of \<^verbatim>\<open>stdatomic.h\<close> that the header
  wraps (\<^verbatim>\<open>atomic_init\<close> and the \<^verbatim>\<open>atomic_*_explicit\<close> family), which are the C
  library's and not in the sources.  They follow the operation table of the specification's
  section 4.2, which is what C11 (7.17.7 and 7.17.2.2) defines as their effect on the
  object when one thread runs them.  The ordering arguments
  constrain visibility between threads and do not enter the value computed.  The weak
  compare-exchange may fail although the object equals the expected value: whether this
  attempt does is the platform's choice, the argument \<open>spurious\<close>.  On a failure both forms
  copy the object's value into \<^verbatim>\<open>*expected\<close>.  Addition and subtraction on the integer types
  wrap silently, for the signed types as well (7.17.7.5), which is arithmetic on words.
\<close>

definition atomic_init :: "'a memory \<Rightarrow> addr \<Rightarrow> 'a \<Rightarrow> 'a memory" where
  "atomic_init m obj val = m(obj := val)"

definition atomic_load_explicit :: "'a memory \<Rightarrow> addr \<Rightarrow> memory_order \<Rightarrow> 'a" where
  "atomic_load_explicit m obj order = m obj"

definition atomic_store_explicit :: "'a memory \<Rightarrow> addr \<Rightarrow> 'a \<Rightarrow> memory_order \<Rightarrow> 'a memory" where
  "atomic_store_explicit m obj desired order = m(obj := desired)"

definition atomic_exchange_explicit ::
    "'a memory \<Rightarrow> addr \<Rightarrow> 'a \<Rightarrow> memory_order \<Rightarrow> 'a \<times> 'a memory" where
  "atomic_exchange_explicit m obj desired order = (m obj, m(obj := desired))"

definition atomic_compare_exchange_strong_explicit ::
    "'a memory \<Rightarrow> addr \<Rightarrow> addr \<Rightarrow> 'a \<Rightarrow> memory_order \<Rightarrow> memory_order \<Rightarrow> bool \<times> 'a memory" where
  "atomic_compare_exchange_strong_explicit m obj expected desired succ fail =
     (if m obj = m expected then (True, m(obj := desired))
      else (False, m(expected := m obj)))"

definition atomic_compare_exchange_weak_explicit ::
    "bool \<Rightarrow> 'a memory \<Rightarrow> addr \<Rightarrow> addr \<Rightarrow> 'a \<Rightarrow> memory_order \<Rightarrow> memory_order \<Rightarrow> bool \<times> 'a memory" where
  "atomic_compare_exchange_weak_explicit spurious m obj expected desired succ fail =
     (if m obj = m expected \<and> \<not> spurious then (True, m(obj := desired))
      else (False, m(expected := m obj)))"

definition atomic_fetch_add_explicit ::
    "'a::len word memory \<Rightarrow> addr \<Rightarrow> 'a word \<Rightarrow> memory_order \<Rightarrow> 'a word \<times> 'a word memory" where
  "atomic_fetch_add_explicit m obj operand order = (m obj, m(obj := m obj + operand))"

definition atomic_fetch_sub_explicit ::
    "'a::len word memory \<Rightarrow> addr \<Rightarrow> 'a word \<Rightarrow> memory_order \<Rightarrow> 'a word \<times> 'a word memory" where
  "atomic_fetch_sub_explicit m obj operand order = (m obj, m(obj := m obj - operand))"

text \<open>
  The body of \<^verbatim>\<open>_CATOMIC_VAR(name, swift_type, atomic_type, c_type)\<close>, once for every
  \<^verbatim>\<open>c_type\<close>: the type variable stands for \<^verbatim>\<open>c_type\<close> and \<open>C_name_Load\<close> for
  \<^verbatim>\<open>C##name##Load\<close>.  A function that writes returns the store it leaves; the two
  compare-exchange functions take the build's \<^verbatim>\<open>NDEBUG\<close> first and can abort.
\<close>

definition C_name_Initialize :: "'a memory \<Rightarrow> addr \<Rightarrow> 'a \<Rightarrow> 'a memory" where
  "C_name_Initialize m ptr val = atomic_init m ptr val"

definition C_name_CompareExchangeStrong ::
    "bool \<Rightarrow> 'a memory \<Rightarrow> addr \<Rightarrow> addr \<Rightarrow> 'a \<Rightarrow> AtomicMemoryOrder \<Rightarrow> AtomicLoadMemoryOrder
      \<Rightarrow> error + bool \<times> 'a memory" where
  "C_name_CompareExchangeStrong NDEBUG m ptr expected desired succ fail =
     (case c_assert NDEBUG (fail \<le> succ) of
        Inl e \<Rightarrow> Inl e
      | Inr _ \<Rightarrow> Inr (atomic_compare_exchange_strong_explicit m ptr expected desired succ fail))"

definition C_name_CompareExchangeWeak ::
    "bool \<Rightarrow> bool \<Rightarrow> 'a memory \<Rightarrow> addr \<Rightarrow> addr \<Rightarrow> 'a \<Rightarrow> AtomicMemoryOrder \<Rightarrow> AtomicLoadMemoryOrder
      \<Rightarrow> error + bool \<times> 'a memory" where
  "C_name_CompareExchangeWeak NDEBUG spurious m ptr expected desired succ fail =
     (case c_assert NDEBUG (fail \<le> succ) of
        Inl e \<Rightarrow> Inl e
      | Inr _ \<Rightarrow>
          Inr (atomic_compare_exchange_weak_explicit spurious m ptr expected desired succ fail))"

definition C_name_Exchange ::
    "'a memory \<Rightarrow> addr \<Rightarrow> 'a \<Rightarrow> AtomicMemoryOrder \<Rightarrow> 'a \<times> 'a memory" where
  "C_name_Exchange m ptr val order = atomic_exchange_explicit m ptr val order"

definition C_name_Load :: "'a memory \<Rightarrow> addr \<Rightarrow> AtomicLoadMemoryOrder \<Rightarrow> 'a" where
  "C_name_Load m ptr order = atomic_load_explicit m ptr order"

definition C_name_Store :: "'a memory \<Rightarrow> addr \<Rightarrow> 'a \<Rightarrow> AtomicStoreMemoryOrder \<Rightarrow> 'a memory" where
  "C_name_Store m ptr val order = atomic_store_explicit m ptr val order"

text \<open>The two functions \<^verbatim>\<open>_CATOMIC_INTEGER\<close> adds, for the integer types.\<close>

definition C_name_FetchAdd ::
    "'a::len word memory \<Rightarrow> addr \<Rightarrow> 'a word \<Rightarrow> AtomicMemoryOrder \<Rightarrow> 'a word \<times> 'a word memory" where
  "C_name_FetchAdd m ptr val order = atomic_fetch_add_explicit m ptr val order"

definition C_name_FetchSub ::
    "'a::len word memory \<Rightarrow> addr \<Rightarrow> 'a word \<Rightarrow> AtomicMemoryOrder \<Rightarrow> 'a word \<times> 'a word memory" where
  "C_name_FetchSub m ptr val order = atomic_fetch_sub_explicit m ptr val order"

text \<open>
  The instantiations.  \<^verbatim>\<open>_Bool\<close> is \<^typ>\<open>bool\<close>; an integer type is the word of its width,
  read by \<^const>\<open>uint\<close> when unsigned and by \<^const>\<open>sint\<close> when signed.  (\<^verbatim>\<open>long\<close>, behind
  \<^verbatim>\<open>AtomicInt\<close> and \<^verbatim>\<open>AtomicUInt\<close>, has the width of the target; the generic functions
  cover every width.)  The functions of \<^verbatim>\<open>_CATOMIC_INTEGER(AtomicUInt8, UInt8, atomic_uchar,
  unsigned char)\<close> that are named below are the generic ones at eight bits.
\<close>

type_synonym CAtomicBool = bool
type_synonym CAtomicInt8 = "8 word"
type_synonym CAtomicInt16 = "16 word"
type_synonym CAtomicInt32 = "32 word"
type_synonym CAtomicInt64 = "64 word"
type_synonym CAtomicUInt8 = "8 word"
type_synonym CAtomicUInt16 = "16 word"
type_synonym CAtomicUInt32 = "32 word"
type_synonym CAtomicUInt64 = "64 word"

definition CAtomicUInt8Initialize ::
    "CAtomicUInt8 memory \<Rightarrow> addr \<Rightarrow> CAtomicUInt8 \<Rightarrow> CAtomicUInt8 memory" where
  "CAtomicUInt8Initialize = C_name_Initialize"

definition CAtomicUInt8Load ::
    "CAtomicUInt8 memory \<Rightarrow> addr \<Rightarrow> AtomicLoadMemoryOrder \<Rightarrow> CAtomicUInt8" where
  "CAtomicUInt8Load = C_name_Load"

definition CAtomicUInt8FetchAdd ::
    "CAtomicUInt8 memory \<Rightarrow> addr \<Rightarrow> CAtomicUInt8 \<Rightarrow> AtomicMemoryOrder
      \<Rightarrow> CAtomicUInt8 \<times> CAtomicUInt8 memory" where
  "CAtomicUInt8FetchAdd = C_name_FetchAdd"

text \<open>A store whose every object holds zero, for the concrete runs below.\<close>

definition zeroed :: "'a::zero memory" where
  "zeroed p = 0"

text \<open>A platform whose weak compare-exchange fails spuriously on the attempts before \<open>k\<close>.\<close>

definition spurious_before :: "nat \<Rightarrow> nat \<Rightarrow> bool" where
  "spurious_before k i = (i < k)"

subsection \<open>The caller's retry loop around the weak compare-exchange\<close>

text \<open>
  The header has no retry loop; it is the caller's, and the one the specification's
  single-threaded test describes is
  \<^verbatim>\<open>while (!C##name##CompareExchangeWeak(ptr, &expected, desired, succ, fail)) {}\<close>.
  \<open>spurious_at i\<close> says whether the platform lets attempt \<open>i\<close> fail spuriously; the loop
  returns the index of the attempt that succeeded and the store it left, and it does not
  return while every attempt fails.
\<close>

partial_function (option) retry_CompareExchangeWeak ::
    "(nat \<Rightarrow> bool) \<Rightarrow> nat \<Rightarrow> bool \<Rightarrow> 'a memory \<Rightarrow> addr \<Rightarrow> addr \<Rightarrow> 'a
      \<Rightarrow> AtomicMemoryOrder \<Rightarrow> AtomicLoadMemoryOrder \<Rightarrow> (error + nat \<times> 'a memory) option" where
  "retry_CompareExchangeWeak spurious_at i NDEBUG m ptr expected desired succ fail =
     (case C_name_CompareExchangeWeak NDEBUG (spurious_at i) m ptr expected desired succ fail of
        Inl e \<Rightarrow> Some (Inl e)
      | Inr r \<Rightarrow>
          if fst r then Some (Inr (i, snd r))
          else retry_CompareExchangeWeak spurious_at (Suc i) NDEBUG (snd r) ptr expected desired
                 succ fail)"

subsection \<open>The strength order of the specification\<close>

text \<open>
  The specification's ordering vocabulary (its section 3) and the strength order it words
  in its design notes: the chain Relaxed, Consume, Acquire, Release, AcqRel, SeqCst, in
  which Acquire and Release are not ordered relative to each other while AcqRel dominates
  both.  This order is written from the specification, to be compared with the check the
  code makes; \<open>MemoryOrder_raw\<close> gives each ordering its enumerator.
  \<open>spec_stronger x y\<close> reads: \<open>x\<close> is strictly stronger than \<open>y\<close>.  The
  specification's precondition on a compare-exchange is that the failure ordering, a load
  ordering, is never stronger than the success ordering.
\<close>

datatype MemoryOrder = Relaxed | Consume | Acquire | Release | AcqRel | SeqCst

fun MemoryOrder_raw :: "MemoryOrder \<Rightarrow> AtomicMemoryOrder" where
  "MemoryOrder_raw Relaxed = AtomicMemoryOrderRelaxed"
| "MemoryOrder_raw Consume = AtomicMemoryOrderConsume"
| "MemoryOrder_raw Acquire = AtomicMemoryOrderAcquire"
| "MemoryOrder_raw Release = AtomicMemoryOrderRelease"
| "MemoryOrder_raw AcqRel = AtomicMemoryOrderAcqrel"
| "MemoryOrder_raw SeqCst = AtomicMemoryOrderSeqcst"

definition LoadOrder :: "MemoryOrder set" where
  "LoadOrder = {Relaxed, Consume, Acquire, SeqCst}"

fun spec_stronger :: "MemoryOrder \<Rightarrow> MemoryOrder \<Rightarrow> bool" where
  "spec_stronger x Relaxed = (x \<noteq> Relaxed)"
| "spec_stronger x Consume = (x \<in> {Acquire, Release, AcqRel, SeqCst})"
| "spec_stronger x Acquire = (x \<in> {AcqRel, SeqCst})"
| "spec_stronger x Release = (x \<in> {AcqRel, SeqCst})"
| "spec_stronger x AcqRel = (x = SeqCst)"
| "spec_stronger x SeqCst = False"

text \<open>The defining equations, collected for unfolding.\<close>

lemmas memory_order_defs =
  memory_order_relaxed_def memory_order_consume_def memory_order_acquire_def
  memory_order_release_def memory_order_acq_rel_def memory_order_seq_cst_def

lemmas AtomicMemoryOrder_defs =
  AtomicMemoryOrderRelaxed_def AtomicMemoryOrderConsume_def AtomicMemoryOrderAcquire_def
  AtomicMemoryOrderRelease_def AtomicMemoryOrderAcqrel_def AtomicMemoryOrderSeqcst_def

lemmas AtomicLoadMemoryOrder_defs =
  AtomicLoadMemoryOrderRelaxed_def AtomicLoadMemoryOrderConsume_def
  AtomicLoadMemoryOrderAcquire_def AtomicLoadMemoryOrderSeqcst_def

lemmas C_name_defs =
  C_name_Initialize_def C_name_CompareExchangeStrong_def C_name_CompareExchangeWeak_def
  C_name_Exchange_def C_name_Load_def C_name_Store_def C_name_FetchAdd_def C_name_FetchSub_def

lemmas stdatomic_defs =
  atomic_init_def atomic_load_explicit_def atomic_store_explicit_def
  atomic_exchange_explicit_def atomic_compare_exchange_strong_explicit_def
  atomic_compare_exchange_weak_explicit_def atomic_fetch_add_explicit_def
  atomic_fetch_sub_explicit_def

section \<open>The ordering model\<close>

text \<open>
  C1.  The mapping table of \<^const>\<open>AtomicMemoryOrderStrongestLoadOrder\<close>: Relaxed to Relaxed,
  Consume to Consume, Acquire to Acquire, Release to Relaxed (and not to Acquire), AcqRel
  to Acquire, SeqCst to SeqCst; and whatever the argument, the result is one of the four
  load orderings Relaxed, Consume, Acquire, SeqCst.
\<close>

theorem StrongestLoadOrder_table:
  "AtomicMemoryOrderStrongestLoadOrder AtomicMemoryOrderRelaxed = AtomicLoadMemoryOrderRelaxed
   \<and> AtomicMemoryOrderStrongestLoadOrder AtomicMemoryOrderConsume = AtomicLoadMemoryOrderConsume
   \<and> AtomicMemoryOrderStrongestLoadOrder AtomicMemoryOrderAcquire = AtomicLoadMemoryOrderAcquire
   \<and> AtomicMemoryOrderStrongestLoadOrder AtomicMemoryOrderRelease = AtomicLoadMemoryOrderRelaxed
   \<and> AtomicMemoryOrderStrongestLoadOrder AtomicMemoryOrderRelease \<noteq> AtomicLoadMemoryOrderAcquire
   \<and> AtomicMemoryOrderStrongestLoadOrder AtomicMemoryOrderAcqrel = AtomicLoadMemoryOrderAcquire
   \<and> AtomicMemoryOrderStrongestLoadOrder AtomicMemoryOrderSeqcst = AtomicLoadMemoryOrderSeqcst
   \<and> AtomicMemoryOrderStrongestLoadOrder self \<in>
        {AtomicLoadMemoryOrderRelaxed, AtomicLoadMemoryOrderConsume,
         AtomicLoadMemoryOrderAcquire, AtomicLoadMemoryOrderSeqcst}"
  by (simp add: AtomicMemoryOrderStrongestLoadOrder_def AtomicMemoryOrder_defs
      AtomicLoadMemoryOrder_defs memory_order_defs)

text \<open>
  C9.  \<^const>\<open>AtomicMemoryOrderStrongestLoadOrder\<close> has no failing path (it is a total function
  returning a load ordering, with no error value), and an argument that is none of the six
  enumerators takes the \<^verbatim>\<open>default\<close> branch, which returns SeqCst.
\<close>

theorem StrongestLoadOrder_default:
  assumes "self \<notin> {AtomicMemoryOrderRelaxed, AtomicMemoryOrderConsume, AtomicMemoryOrderAcquire,
                   AtomicMemoryOrderRelease, AtomicMemoryOrderAcqrel, AtomicMemoryOrderSeqcst}"
  shows "AtomicMemoryOrderStrongestLoadOrder self = AtomicLoadMemoryOrderSeqcst"
  using assms by (simp add: AtomicMemoryOrderStrongestLoadOrder_def)

theorem StrongestLoadOrder_default_witness:
  "(6 :: AtomicMemoryOrder) \<notin> {AtomicMemoryOrderRelaxed, AtomicMemoryOrderConsume,
        AtomicMemoryOrderAcquire, AtomicMemoryOrderRelease, AtomicMemoryOrderAcqrel,
        AtomicMemoryOrderSeqcst}
   \<and> AtomicMemoryOrderStrongestLoadOrder 6 = 5"
proof -
  have out: "(6 :: AtomicMemoryOrder) \<notin> {AtomicMemoryOrderRelaxed, AtomicMemoryOrderConsume,
        AtomicMemoryOrderAcquire, AtomicMemoryOrderRelease, AtomicMemoryOrderAcqrel,
        AtomicMemoryOrderSeqcst}"
    by (simp add: AtomicMemoryOrder_defs memory_order_defs)
  from StrongestLoadOrder_default [OF out] out show ?thesis
    by (simp add: AtomicLoadMemoryOrderSeqcst_def memory_order_seq_cst_def)
qed

text \<open>
  C10.  Every result of \<^const>\<open>AtomicMemoryOrderStrongestLoadOrder\<close> is a fixed point of it: the
  load enumerators carry the same values as the general ones, so the result can be passed
  back in, and the second application returns it unchanged.
\<close>

theorem StrongestLoadOrder_idempotent:
  "AtomicMemoryOrderStrongestLoadOrder (AtomicMemoryOrderStrongestLoadOrder self) =
   AtomicMemoryOrderStrongestLoadOrder self"
  by (simp add: AtomicMemoryOrderStrongestLoadOrder_def AtomicMemoryOrder_defs
      AtomicLoadMemoryOrder_defs memory_order_defs)

section \<open>Initialize, Load and Exchange\<close>

text \<open>
  C7.  For every cell type and every value \<open>v1\<close>: after \<open>Initialize(cell, v1)\<close>, with no
  operation in between, \<open>Load(cell, Relaxed)\<close> returns \<open>v1\<close>, whatever the storage held
  before.
\<close>

theorem Load_after_Initialize:
  "C_name_Load (C_name_Initialize m ptr v1) ptr AtomicLoadMemoryOrderRelaxed = v1"
  by (simp add: C_name_Initialize_def C_name_Load_def atomic_init_def atomic_load_explicit_def)

text \<open>
  C8.  For every cell type, value \<open>v2\<close> and ordering: \<open>Exchange(cell, v2, order)\<close> returns
  the cell's value, which is the value most recently stored in it (by Initialize, by Store or
  by an earlier Exchange), and afterwards \<open>Load(cell, Relaxed)\<close> returns \<open>v2\<close>.
\<close>

theorem Exchange_returns_previous:
  "fst (C_name_Exchange m ptr v2 order) = C_name_Load m ptr AtomicLoadMemoryOrderRelaxed
   \<and> C_name_Load (snd (C_name_Exchange m ptr v2 order)) ptr AtomicLoadMemoryOrderRelaxed = v2
   \<and> fst (C_name_Exchange (C_name_Initialize m ptr v1) ptr v2 order) = v1
   \<and> fst (C_name_Exchange (C_name_Store m ptr v1 store_order) ptr v2 order) = v1
   \<and> fst (C_name_Exchange (snd (C_name_Exchange m ptr v1 order1)) ptr v2 order) = v1"
  by (simp add: C_name_defs stdatomic_defs)

section \<open>FetchAdd and FetchSub\<close>

text \<open>
  C6.  For an integer cell of any width, FetchAdd and FetchSub return the value the cell
  held before and leave the sum, respectively the difference, reduced modulo two to the
  width: read unsigned it is the result modulo \<open>2 ^ width\<close>, read signed it is the
  two's-complement wrap-around.  An 8-bit unsigned cell initialised to 250 returns 250 from
  \<open>FetchAdd(cell, 10)\<close> and holds 4 afterwards.
\<close>

theorem FetchAdd_FetchSub_wraparound:
  fixes m :: "'a::len word memory" and m8 :: "CAtomicUInt8 memory"
  shows "fst (C_name_FetchAdd m ptr v order) = m ptr
   \<and> uint (snd (C_name_FetchAdd m ptr v order) ptr) = (uint (m ptr) + uint v) mod 2 ^ LENGTH('a)
   \<and> sint (snd (C_name_FetchAdd m ptr v order) ptr) =
        signed_take_bit (LENGTH('a) - 1) (sint (m ptr) + sint v)
   \<and> fst (C_name_FetchSub m ptr v order) = m ptr
   \<and> uint (snd (C_name_FetchSub m ptr v order) ptr) = (uint (m ptr) - uint v) mod 2 ^ LENGTH('a)
   \<and> sint (snd (C_name_FetchSub m ptr v order) ptr) =
        signed_take_bit (LENGTH('a) - 1) (sint (m ptr) - sint v)
   \<and> fst (CAtomicUInt8FetchAdd (CAtomicUInt8Initialize m8 p 250) p 10 order8) = 250
   \<and> CAtomicUInt8Load (snd (CAtomicUInt8FetchAdd (CAtomicUInt8Initialize m8 p 250) p 10 order8)) p
        AtomicLoadMemoryOrderRelaxed = 4"
proof -
  have generic:
    "fst (C_name_FetchAdd m ptr v order) = m ptr"
    "uint (snd (C_name_FetchAdd m ptr v order) ptr) = (uint (m ptr) + uint v) mod 2 ^ LENGTH('a)"
    "sint (snd (C_name_FetchAdd m ptr v order) ptr) =
        signed_take_bit (LENGTH('a) - 1) (sint (m ptr) + sint v)"
    "fst (C_name_FetchSub m ptr v order) = m ptr"
    "uint (snd (C_name_FetchSub m ptr v order) ptr) = (uint (m ptr) - uint v) mod 2 ^ LENGTH('a)"
    "sint (snd (C_name_FetchSub m ptr v order) ptr) =
        signed_take_bit (LENGTH('a) - 1) (sint (m ptr) - sint v)"
    by (simp_all add: C_name_FetchAdd_def C_name_FetchSub_def atomic_fetch_add_explicit_def
        atomic_fetch_sub_explicit_def uint_word_ariths sint_word_ariths)
  have uint8:
    "fst (CAtomicUInt8FetchAdd (CAtomicUInt8Initialize m8 p 250) p 10 order8) = 250"
    "CAtomicUInt8Load (snd (CAtomicUInt8FetchAdd (CAtomicUInt8Initialize m8 p 250) p 10 order8)) p
        AtomicLoadMemoryOrderRelaxed = 4"
    by (simp_all add: CAtomicUInt8FetchAdd_def CAtomicUInt8Initialize_def CAtomicUInt8Load_def
        C_name_defs stdatomic_defs)
  from generic uint8 show ?thesis by simp
qed

section \<open>Compare-exchange: the ordering precondition\<close>

text \<open>
  C2.  In a debug build (\<^verbatim>\<open>NDEBUG\<close> not defined) both compare-exchange functions, on every
  cell type, check the ordering precondition by their assertion: when the failure ordering
  is strictly stronger than the success ordering the call aborts on the assertion, as it
  does for success Relaxed and failure Acquire; when the failure ordering is a load
  ordering and is not stronger than the success ordering the assertion does not fire and
  the call returns what the exchange computes.
\<close>

theorem CompareExchange_assertion_checks_precondition:
  fixes m :: "'a memory"
  shows "(spec_stronger f s \<longrightarrow>
       C_name_CompareExchangeStrong False m ptr expected desired (MemoryOrder_raw s) (MemoryOrder_raw f)
         = Inl AssertionFailed
     \<and> C_name_CompareExchangeWeak False spurious m ptr expected desired
         (MemoryOrder_raw s) (MemoryOrder_raw f) = Inl AssertionFailed)
   \<and> (f \<in> LoadOrder \<and> \<not> spec_stronger f s \<longrightarrow>
       C_name_CompareExchangeStrong False m ptr expected desired (MemoryOrder_raw s) (MemoryOrder_raw f)
         = Inr (atomic_compare_exchange_strong_explicit m ptr expected desired
                  (MemoryOrder_raw s) (MemoryOrder_raw f))
     \<and> C_name_CompareExchangeWeak False spurious m ptr expected desired
         (MemoryOrder_raw s) (MemoryOrder_raw f)
         = Inr (atomic_compare_exchange_weak_explicit spurious m ptr expected desired
                  (MemoryOrder_raw s) (MemoryOrder_raw f)))
   \<and> C_name_CompareExchangeStrong False m ptr expected desired
        AtomicMemoryOrderRelaxed AtomicLoadMemoryOrderAcquire = Inl AssertionFailed
   \<and> C_name_CompareExchangeWeak False spurious m ptr expected desired
        AtomicMemoryOrderRelaxed AtomicLoadMemoryOrderAcquire = Inl AssertionFailed"
  by (cases f; cases s;
      simp add: C_name_CompareExchangeStrong_def C_name_CompareExchangeWeak_def c_assert_def
        LoadOrder_def AtomicMemoryOrder_defs AtomicLoadMemoryOrder_defs memory_order_defs
        word_le_nat_alt)

theorem CompareExchange_assertion_checks_precondition_witness:
  "spec_stronger Acquire Relaxed
   \<and> C_name_CompareExchangeStrong False (zeroed :: CAtomicUInt8 memory) 0 1 7
        (MemoryOrder_raw Relaxed) (MemoryOrder_raw Acquire) = Inl AssertionFailed
   \<and> C_name_CompareExchangeWeak False False (zeroed :: CAtomicUInt8 memory) 0 1 7
        (MemoryOrder_raw Relaxed) (MemoryOrder_raw Acquire) = Inl AssertionFailed
   \<and> Acquire \<in> LoadOrder \<and> \<not> spec_stronger Acquire AcqRel
   \<and> C_name_CompareExchangeStrong False (zeroed :: CAtomicUInt8 memory) 0 1 7
        (MemoryOrder_raw AcqRel) (MemoryOrder_raw Acquire) = Inr (True, zeroed(0 := 7))
   \<and> C_name_CompareExchangeWeak False False (zeroed :: CAtomicUInt8 memory) 0 1 7
        (MemoryOrder_raw AcqRel) (MemoryOrder_raw Acquire) = Inr (True, zeroed(0 := 7))"
proof -
  have stronger: "spec_stronger Acquire Relaxed" by simp
  have allowed: "Acquire \<in> LoadOrder \<and> \<not> spec_stronger Acquire AcqRel"
    by (simp add: LoadOrder_def)
  note fires = CompareExchange_assertion_checks_precondition
    [where f = Acquire and s = Relaxed and m = "zeroed :: CAtomicUInt8 memory" and ptr = 0
       and expected = 1 and desired = 7 and spurious = False]
  note passes = CompareExchange_assertion_checks_precondition
    [where f = Acquire and s = AcqRel and m = "zeroed :: CAtomicUInt8 memory" and ptr = 0
       and expected = 1 and desired = 7 and spurious = False]
  from fires passes stronger allowed show ?thesis
    by (simp add: atomic_compare_exchange_strong_explicit_def
        atomic_compare_exchange_weak_explicit_def zeroed_def)
qed

text \<open>
  C3.  The comparison that validates the failure ordering against the success ordering is
  a \<^verbatim>\<open>\<le>\<close> on the raw enumerator values (0 for Relaxed up to 5 for SeqCst): in a debug
  build the call aborts exactly when the success ordering's value is below the failure
  ordering's.  For a failure ordering that is a load ordering this accepts and rejects
  exactly as the specification's strength order dictates, the order in which Relaxed is
  below Consume and Consume below Acquire, Acquire and Release are not ordered relative to
  each other, and AcqRel dominates both: the call aborts exactly when the failure ordering
  is strictly stronger than the success ordering.  In particular success Release with
  failure Acquire, where neither is stronger, is accepted (2 is not above 3) and the
  exchange is carried out.
\<close>

theorem CompareExchange_assertion_follows_strength_order:
  fixes m :: "'a memory"
  shows "(f \<in> LoadOrder \<longrightarrow>
        (C_name_CompareExchangeStrong False m ptr expected desired
           (MemoryOrder_raw s) (MemoryOrder_raw f) = Inl AssertionFailed \<longleftrightarrow> spec_stronger f s)
      \<and> (C_name_CompareExchangeWeak False spurious m ptr expected desired
           (MemoryOrder_raw s) (MemoryOrder_raw f) = Inl AssertionFailed \<longleftrightarrow> spec_stronger f s))
   \<and> spec_stronger Consume Relaxed \<and> spec_stronger Acquire Consume
   \<and> \<not> spec_stronger Acquire Release \<and> \<not> spec_stronger Release Acquire
   \<and> spec_stronger AcqRel Acquire \<and> spec_stronger AcqRel Release
   \<and> C_name_CompareExchangeStrong False m ptr expected desired
        (MemoryOrder_raw Release) (MemoryOrder_raw Acquire)
        = Inr (atomic_compare_exchange_strong_explicit m ptr expected desired
                 (MemoryOrder_raw Release) (MemoryOrder_raw Acquire))
   \<and> C_name_CompareExchangeWeak False spurious m ptr expected desired
        (MemoryOrder_raw Release) (MemoryOrder_raw Acquire)
        = Inr (atomic_compare_exchange_weak_explicit spurious m ptr expected desired
                 (MemoryOrder_raw Release) (MemoryOrder_raw Acquire))
   \<and> (C_name_CompareExchangeStrong False m ptr expected desired succ fail = Inl AssertionFailed
          \<longleftrightarrow> unat succ < unat fail)
   \<and> (C_name_CompareExchangeWeak False spurious m ptr expected desired succ fail
          = Inl AssertionFailed \<longleftrightarrow> unat succ < unat fail)
   \<and> unat (MemoryOrder_raw Release) = 3 \<and> unat (MemoryOrder_raw Acquire) = 2"
proof -
  have dictated: "f \<in> LoadOrder \<longrightarrow>
        (C_name_CompareExchangeStrong False m ptr expected desired
           (MemoryOrder_raw s) (MemoryOrder_raw f) = Inl AssertionFailed \<longleftrightarrow> spec_stronger f s)
      \<and> (C_name_CompareExchangeWeak False spurious m ptr expected desired
           (MemoryOrder_raw s) (MemoryOrder_raw f) = Inl AssertionFailed \<longleftrightarrow> spec_stronger f s)"
    by (cases f; cases s;
        simp add: C_name_CompareExchangeStrong_def C_name_CompareExchangeWeak_def c_assert_def
          LoadOrder_def AtomicMemoryOrder_defs memory_order_defs word_le_nat_alt)
  have order:
    "spec_stronger Consume Relaxed" "spec_stronger Acquire Consume"
    "\<not> spec_stronger Acquire Release" "\<not> spec_stronger Release Acquire"
    "spec_stronger AcqRel Acquire" "spec_stronger AcqRel Release"
    by simp_all
  have pair:
    "C_name_CompareExchangeStrong False m ptr expected desired
        (MemoryOrder_raw Release) (MemoryOrder_raw Acquire)
        = Inr (atomic_compare_exchange_strong_explicit m ptr expected desired
                 (MemoryOrder_raw Release) (MemoryOrder_raw Acquire))"
    "C_name_CompareExchangeWeak False spurious m ptr expected desired
        (MemoryOrder_raw Release) (MemoryOrder_raw Acquire)
        = Inr (atomic_compare_exchange_weak_explicit spurious m ptr expected desired
                 (MemoryOrder_raw Release) (MemoryOrder_raw Acquire))"
    by (simp_all add: C_name_CompareExchangeStrong_def C_name_CompareExchangeWeak_def
        c_assert_def AtomicMemoryOrder_defs memory_order_defs word_le_nat_alt)
  have raw:
    "C_name_CompareExchangeStrong False m ptr expected desired succ fail = Inl AssertionFailed
       \<longleftrightarrow> unat succ < unat fail"
    "C_name_CompareExchangeWeak False spurious m ptr expected desired succ fail
       = Inl AssertionFailed \<longleftrightarrow> unat succ < unat fail"
    by (auto simp add: C_name_CompareExchangeStrong_def C_name_CompareExchangeWeak_def
        c_assert_def word_le_nat_alt)
  have ranks: "unat (MemoryOrder_raw Release) = 3" "unat (MemoryOrder_raw Acquire) = 2"
    by (simp_all add: AtomicMemoryOrder_defs memory_order_defs)
  from dictated order pair raw ranks show ?thesis by blast
qed

theorem CompareExchange_assertion_follows_strength_order_witness:
  "Acquire \<in> LoadOrder \<and> \<not> spec_stronger Acquire Release
   \<and> C_name_CompareExchangeStrong False (zeroed :: CAtomicUInt8 memory) 0 1 7
        (MemoryOrder_raw Release) (MemoryOrder_raw Acquire) = Inr (True, zeroed(0 := 7))
   \<and> C_name_CompareExchangeWeak False False (zeroed :: CAtomicUInt8 memory) 0 1 7
        (MemoryOrder_raw Release) (MemoryOrder_raw Acquire) = Inr (True, zeroed(0 := 7))
   \<and> Consume \<in> LoadOrder \<and> spec_stronger Consume Relaxed
   \<and> C_name_CompareExchangeStrong False (zeroed :: CAtomicUInt8 memory) 0 1 7
        (MemoryOrder_raw Relaxed) (MemoryOrder_raw Consume) = Inl AssertionFailed
   \<and> C_name_CompareExchangeWeak False False (zeroed :: CAtomicUInt8 memory) 0 1 7
        (MemoryOrder_raw Relaxed) (MemoryOrder_raw Consume) = Inl AssertionFailed"
proof -
  have loads: "Acquire \<in> LoadOrder" "Consume \<in> LoadOrder"
    by (simp_all add: LoadOrder_def)
  have order: "\<not> spec_stronger Acquire Release" "spec_stronger Consume Relaxed"
    by simp_all
  note accepted = CompareExchange_assertion_follows_strength_order
    [where f = Acquire and s = Release and m = "zeroed :: CAtomicUInt8 memory" and ptr = 0
       and expected = 1 and desired = 7 and spurious = False]
  note rejected = CompareExchange_assertion_follows_strength_order
    [where f = Consume and s = Relaxed and m = "zeroed :: CAtomicUInt8 memory" and ptr = 0
       and expected = 1 and desired = 7 and spurious = False]
  from accepted rejected loads order show ?thesis
    by (simp add: atomic_compare_exchange_strong_explicit_def
        atomic_compare_exchange_weak_explicit_def zeroed_def)
qed

section \<open>Compare-exchange: the exchange\<close>

text \<open>
  C4.  For every cell type, under the ordering precondition (so that the assertion passes
  in either build): when the cell's value equals \<^verbatim>\<open>*expected\<close>, CompareExchangeStrong
  returns true and leaves \<open>desired\<close> in the cell, always (it has no spurious failure);
  when the values differ it returns false, leaves the cell as it was and writes the cell's
  value into \<^verbatim>\<open>*expected\<close>.
\<close>

theorem CompareExchangeStrong_semantics:
  assumes "fail \<le> succ"
  shows "(m ptr = m expected \<longrightarrow>
            C_name_CompareExchangeStrong NDEBUG m ptr expected desired succ fail
              = Inr (True, m(ptr := desired))
            \<and> C_name_Load (m(ptr := desired)) ptr AtomicLoadMemoryOrderRelaxed = desired)
       \<and> (m ptr \<noteq> m expected \<longrightarrow>
            C_name_CompareExchangeStrong NDEBUG m ptr expected desired succ fail
              = Inr (False, m(expected := m ptr))
            \<and> C_name_Load (m(expected := m ptr)) ptr AtomicLoadMemoryOrderRelaxed = m ptr
            \<and> (m(expected := m ptr)) expected = m ptr)"
  using assms
  by (simp add: C_name_CompareExchangeStrong_def C_name_Load_def c_assert_def
      atomic_compare_exchange_strong_explicit_def atomic_load_explicit_def)

theorem CompareExchangeStrong_semantics_witness:
  "AtomicLoadMemoryOrderAcquire \<le> AtomicMemoryOrderSeqcst
   \<and> (zeroed :: CAtomicUInt8 memory) 0 = zeroed 1
   \<and> C_name_CompareExchangeStrong False (zeroed :: CAtomicUInt8 memory) 0 1 7
        AtomicMemoryOrderSeqcst AtomicLoadMemoryOrderAcquire = Inr (True, zeroed(0 := 7))
   \<and> (zeroed(1 := 3 :: CAtomicUInt8)) 0 \<noteq> (zeroed(1 := 3)) 1
   \<and> C_name_CompareExchangeStrong False (zeroed(1 := 3 :: CAtomicUInt8)) 0 1 7
        AtomicMemoryOrderSeqcst AtomicLoadMemoryOrderAcquire = Inr (False, zeroed)"
proof -
  have ord: "AtomicLoadMemoryOrderAcquire \<le> AtomicMemoryOrderSeqcst"
    by (simp add: AtomicLoadMemoryOrderAcquire_def AtomicMemoryOrderSeqcst_def
        memory_order_defs word_le_nat_alt)
  have eq: "(zeroed :: CAtomicUInt8 memory) 0 = zeroed 1"
    by (simp add: zeroed_def)
  have neq: "(zeroed(1 := 3 :: CAtomicUInt8)) 0 \<noteq> (zeroed(1 := 3)) 1"
    by (simp add: zeroed_def)
  have cell: "(zeroed(1 := 3 :: CAtomicUInt8)) 0 = 0"
    by (simp add: zeroed_def)
  note hit = CompareExchangeStrong_semantics
    [OF ord, where m = "zeroed :: CAtomicUInt8 memory" and ptr = 0 and expected = 1
       and desired = 7 and NDEBUG = False]
  note miss = CompareExchangeStrong_semantics
    [OF ord, where m = "zeroed(1 := 3 :: CAtomicUInt8)" and ptr = 0 and expected = 1
       and desired = 7 and NDEBUG = False]
  from hit miss ord eq neq cell show ?thesis by simp
qed

section \<open>The weak compare-exchange\<close>

text \<open>
  The retry loop returns once the platform lets an attempt through: started at attempt
  \<open>i\<close> on a cell that matches, with attempt \<open>i + n\<close> not failing spuriously, it ends at
  the first such attempt with \<open>desired\<close> in the cell.  A spurious failure writes the cell's
  value into \<^verbatim>\<open>*expected\<close>, which already holds it, so the store is the same at every
  attempt.
\<close>

lemma retry_CompareExchangeWeak_first_attempt:
  assumes "fail \<le> succ" and "m ptr = m expected" and "\<not> spurious_at i"
  shows "retry_CompareExchangeWeak spurious_at i NDEBUG m ptr expected desired succ fail
           = Some (Inr (i, m(ptr := desired)))"
  using assms
  by (subst retry_CompareExchangeWeak.simps)
     (simp add: C_name_CompareExchangeWeak_def c_assert_def
        atomic_compare_exchange_weak_explicit_def)

lemma retry_CompareExchangeWeak_next_attempt:
  assumes "fail \<le> succ" and "m ptr = m expected" and "spurious_at i"
  shows "retry_CompareExchangeWeak spurious_at i NDEBUG m ptr expected desired succ fail
           = retry_CompareExchangeWeak spurious_at (Suc i) NDEBUG m ptr expected desired succ fail"
proof -
  from assms(2) have "m(expected := m ptr) = m"
    by (simp add: fun_upd_idem_iff)
  with assms show ?thesis
    by (subst retry_CompareExchangeWeak.simps)
       (simp add: C_name_CompareExchangeWeak_def c_assert_def
          atomic_compare_exchange_weak_explicit_def)
qed

lemma retry_CompareExchangeWeak_returns:
  assumes ord: "fail \<le> succ" and match: "m ptr = m expected"
  shows "\<not> spurious_at (i + n) \<Longrightarrow>
    \<exists>k. i \<le> k \<and> k \<le> i + n \<and> \<not> spurious_at k \<and>
      retry_CompareExchangeWeak spurious_at i NDEBUG m ptr expected desired succ fail
        = Some (Inr (k, m(ptr := desired)))"
proof (induction n arbitrary: i)
  case 0
  then have "\<not> spurious_at i" by simp
  from retry_CompareExchangeWeak_first_attempt
    [where m = m and ptr = ptr and expected = expected and spurious_at = spurious_at and i = i, OF ord match this] 0
  show ?case by auto
next
  case (Suc n)
  show ?case
  proof (cases "spurious_at i")
    case False
    from retry_CompareExchangeWeak_first_attempt
      [where m = m and ptr = ptr and expected = expected and spurious_at = spurious_at and i = i, OF ord match False]
    show ?thesis using False by auto
  next
    case True
    from Suc.prems have "\<not> spurious_at (Suc i + n)" by simp
    from Suc.IH [OF this] obtain k where
      k: "Suc i \<le> k" "k \<le> Suc i + n" "\<not> spurious_at k"
      "retry_CompareExchangeWeak spurious_at (Suc i) NDEBUG m ptr expected desired succ fail
        = Some (Inr (k, m(ptr := desired)))"
      by blast
    from retry_CompareExchangeWeak_next_attempt
      [where m = m and ptr = ptr and expected = expected and spurious_at = spurious_at and i = i, OF ord match True] k
    show ?thesis by auto
  qed
qed

text \<open>
  C5.  For every cell type, under the ordering precondition: CompareExchangeWeak does what
  the strong form does whenever the platform does not fail the attempt spuriously, and on
  a mismatch in any case; a spurious failure on a matching cell reports false and changes
  nothing; it reports success only when the cell's value equalled \<^verbatim>\<open>*expected\<close>, \<open>desired\<close>
  then being in the cell; and the retry loop on a matching cell, run by one thread on a
  platform that lets some attempt through, returns with success at such an attempt and
  leaves \<open>desired\<close> in the cell.
\<close>

theorem CompareExchangeWeak_semantics:
  assumes ord: "fail \<le> succ"
  shows "C_name_CompareExchangeWeak NDEBUG False m ptr expected desired succ fail
           = C_name_CompareExchangeStrong NDEBUG m ptr expected desired succ fail
       \<and> (m ptr \<noteq> m expected \<longrightarrow>
            C_name_CompareExchangeWeak NDEBUG spurious m ptr expected desired succ fail
              = C_name_CompareExchangeStrong NDEBUG m ptr expected desired succ fail
            \<and> C_name_CompareExchangeWeak NDEBUG spurious m ptr expected desired succ fail
              = Inr (False, m(expected := m ptr)))
       \<and> (m ptr = m expected \<longrightarrow>
            C_name_CompareExchangeWeak NDEBUG True m ptr expected desired succ fail
              = Inr (False, m))
       \<and> (C_name_CompareExchangeWeak NDEBUG spurious m ptr expected desired succ fail
              = Inr (True, m')
            \<longrightarrow> m ptr = m expected \<and> m' = m(ptr := desired))
       \<and> (m ptr = m expected \<and> \<not> spurious_at n \<longrightarrow>
            (\<exists>k\<le>n. \<not> spurious_at k \<and>
               retry_CompareExchangeWeak spurious_at 0 NDEBUG m ptr expected desired succ fail
                 = Some (Inr (k, m(ptr := desired)))))"
proof -
  have as_strong: "C_name_CompareExchangeWeak NDEBUG False m ptr expected desired succ fail
           = C_name_CompareExchangeStrong NDEBUG m ptr expected desired succ fail"
    by (simp add: C_name_CompareExchangeWeak_def C_name_CompareExchangeStrong_def
        atomic_compare_exchange_weak_explicit_def atomic_compare_exchange_strong_explicit_def
        split: sum.splits)
  have mismatch: "m ptr \<noteq> m expected \<longrightarrow>
            C_name_CompareExchangeWeak NDEBUG spurious m ptr expected desired succ fail
              = C_name_CompareExchangeStrong NDEBUG m ptr expected desired succ fail
            \<and> C_name_CompareExchangeWeak NDEBUG spurious m ptr expected desired succ fail
              = Inr (False, m(expected := m ptr))"
    using ord
    by (simp add: C_name_CompareExchangeWeak_def C_name_CompareExchangeStrong_def c_assert_def
        atomic_compare_exchange_weak_explicit_def atomic_compare_exchange_strong_explicit_def)
  have spurious_failure: "m ptr = m expected \<longrightarrow>
            C_name_CompareExchangeWeak NDEBUG True m ptr expected desired succ fail
              = Inr (False, m)"
    using ord
    by (simp add: C_name_CompareExchangeWeak_def c_assert_def
        atomic_compare_exchange_weak_explicit_def fun_upd_idem_iff)
  have success: "C_name_CompareExchangeWeak NDEBUG spurious m ptr expected desired succ fail
              = Inr (True, m')
            \<longrightarrow> m ptr = m expected \<and> m' = m(ptr := desired)"
    using ord
    by (auto simp add: C_name_CompareExchangeWeak_def c_assert_def
        atomic_compare_exchange_weak_explicit_def split: if_splits)
  have loop: "m ptr = m expected \<and> \<not> spurious_at n \<longrightarrow>
            (\<exists>k\<le>n. \<not> spurious_at k \<and>
               retry_CompareExchangeWeak spurious_at 0 NDEBUG m ptr expected desired succ fail
                 = Some (Inr (k, m(ptr := desired))))"
  proof
    assume h: "m ptr = m expected \<and> \<not> spurious_at n"
    then have "\<not> spurious_at (0 + n)" by simp
    from retry_CompareExchangeWeak_returns
      [where m = m and ptr = ptr and expected = expected and spurious_at = spurious_at
         and i = 0 and n = n, OF ord conjunct1 [OF h] this]
    show "\<exists>k\<le>n. \<not> spurious_at k \<and>
               retry_CompareExchangeWeak spurious_at 0 NDEBUG m ptr expected desired succ fail
                 = Some (Inr (k, m(ptr := desired)))"
      by auto
  qed
  from as_strong mismatch spurious_failure success loop show ?thesis by blast
qed

theorem CompareExchangeWeak_semantics_witness:
  "AtomicLoadMemoryOrderRelaxed \<le> AtomicMemoryOrderSeqcst
   \<and> (zeroed :: CAtomicUInt8 memory) 0 = zeroed 1 \<and> \<not> spurious_before 2 2
   \<and> C_name_CompareExchangeWeak False True (zeroed :: CAtomicUInt8 memory) 0 1 7
        AtomicMemoryOrderSeqcst AtomicLoadMemoryOrderRelaxed = Inr (False, zeroed)
   \<and> retry_CompareExchangeWeak (spurious_before 2) 0 False (zeroed :: CAtomicUInt8 memory) 0 1 7
        AtomicMemoryOrderSeqcst AtomicLoadMemoryOrderRelaxed = Some (Inr (2, zeroed(0 := 7)))"
proof -
  have ord: "AtomicLoadMemoryOrderRelaxed \<le> AtomicMemoryOrderSeqcst"
    by (simp add: AtomicLoadMemoryOrderRelaxed_def AtomicMemoryOrderSeqcst_def memory_order_defs)
  have match: "(zeroed :: CAtomicUInt8 memory) 0 = zeroed 1"
    by (simp add: zeroed_def)
  have platform: "\<not> spurious_before 2 2" "spurious_before 2 0" "spurious_before 2 1"
    by (simp_all add: spurious_before_def)
  from CompareExchangeWeak_semantics
    [OF ord, where m = "zeroed :: CAtomicUInt8 memory" and ptr = 0 and expected = 1
       and NDEBUG = False and desired = 7 and spurious_at = "spurious_before 2" and n = 2]
    match platform ord
  show ?thesis by (auto simp add: le_Suc_eq numeral_2_eq_2)
qed

end
